theory Spec2Isabelle
  imports Complex_Main
begin

section \<open>Values, tables and errors\<close>

text \<open>
  A floating-point cell is modelled without rounding: a finite value is a real number,
  and the three non-finite values of the format are constructors of their own.
\<close>

datatype f64 = Fin real | PInf | NInf | NaN

datatype cell = S string | F f64

text \<open>
  A data frame is the ordered association of its column labels with their cells;
  \<open>c in data\<close> asks for a column label.
\<close>

type_synonym dataframe = "(string \<times> cell list) list"

datatype error =
    ValueError string
  | KeyError string
  | NameError string
  | AttributeError string
  | TypeError string
  | IndexError string
  | NotImplementedError
  | WorkerError string
  | PandasError string

record kpi_spec =
  name :: string
  formula :: string

definition has_column :: "dataframe \<Rightarrow> string \<Rightarrow> bool" where
  "has_column df c = (c \<in> set (map fst df))"

definition get_column :: "dataframe \<Rightarrow> string \<Rightarrow> error + cell list" where
  "get_column df c = (case map_of df c of None \<Rightarrow> Inl (KeyError c) | Some xs \<Rightarrow> Inr xs)"

text \<open>
  Item assignment on a dictionary kept in insertion order: an existing key keeps its
  place, a new key goes to the end. \<open>df.loc[:, name] = col\<close> is the same on columns.
\<close>

fun dict_set :: "('k \<times> 'v) list \<Rightarrow> 'k \<Rightarrow> 'v \<Rightarrow> ('k \<times> 'v) list" where
  "dict_set [] n v = [(n, v)]"
| "dict_set ((k, w) # d) n v = (if k = n then (k, v) # d else (k, w) # dict_set d n v)"

definition set_column :: "dataframe \<Rightarrow> string \<Rightarrow> cell list \<Rightarrow> dataframe" where
  "set_column df n col = dict_set df n col"

section \<open>The KPI name pattern\<close>

text \<open>\<open>kpiNamePattern = '([a-zA-Z][0-9a-zA-Z_]*)'\<close>\<close>

definition is_alpha :: "char \<Rightarrow> bool" where
  "is_alpha c = (c \<in> set ''abcdefghijklmnopqrstuvwxyzABCDEFGHIJKLMNOPQRSTUVWXYZ'')"

definition is_word :: "char \<Rightarrow> bool" where
  "is_word c = (is_alpha c \<or> c \<in> set ''0123456789_'')"

text \<open>\<open>re.findall(kpiNamePattern, formula)\<close>: leftmost, greedy, non-overlapping matches.\<close>

function findall_names :: "string \<Rightarrow> string list" where
  "findall_names [] = []"
| "findall_names (c # cs) =
     (if is_alpha c then (c # takeWhile is_word cs) # findall_names (dropWhile is_word cs)
      else findall_names cs)"
  by pat_completeness auto
termination
  by (relation "measure length") (auto simp: length_dropWhile_le le_imp_less_Suc)

text \<open>\<open>re.sub(kpiNamePattern, r'self.data.\1.astype(float)', formula)\<close>\<close>

function subst_names :: "string \<Rightarrow> string" where
  "subst_names [] = []"
| "subst_names (c # cs) =
     (if is_alpha c
      then ''self.data.'' @ (c # takeWhile is_word cs) @ ''.astype(float)''
             @ subst_names (dropWhile is_word cs)
      else c # subst_names cs)"
  by pat_completeness auto
termination
  by (relation "measure length") (auto simp: length_dropWhile_le le_imp_less_Suc)

text \<open>
  \<open>re.sub(kpiNamePattern + '/', '', formula)\<close>: a name is deleted together with the
  slash that follows it directly; the greedy run of name characters can only be followed
  by the slash at its full length, so a position either matches there or not at all.
\<close>

function strip_name_slash :: "string \<Rightarrow> string" where
  "strip_name_slash [] = []"
| "strip_name_slash (c # cs) =
     (if is_alpha c \<and> (case dropWhile is_word cs of [] \<Rightarrow> False | d # _ \<Rightarrow> d = CHR ''/'')
      then strip_name_slash (tl (dropWhile is_word cs))
      else c # strip_name_slash cs)"
  by pat_completeness auto
termination
proof (relation "measure length", goal_cases)
  case 1
  show ?case by simp
next
  case (2 c cs)
  have "length (dropWhile is_word cs) \<le> length cs"
    by (rule length_dropWhile_le)
  then have "length (tl (dropWhile is_word cs)) < Suc (length cs)"
    by (simp only: length_tl)
  then show ?case by simp
next
  case (3 c cs)
  show ?case by simp
qed

section \<open>The object and its constructor\<close>

text \<open>
  An instance is its attribute dictionary. The collaborators that are not part of the
  class are parameters: the column-type helper, the expression evaluator behind
  \<open>eval\<close>, and the order in which a hash set is iterated.
\<close>

datatype pyattr =
    ADataFrame dataframe
  | AMetadata "(string \<times> string) list"
  | ANames "string list"
  | ASpecs "(string \<times> string) list"
  | ACells "cell list"
  | ACell cell
  | ARefs "(string \<times> string) list"
  | ANone
  | ACellSet "cell list"
  | AIndexedFrame "string list" dataframe

type_synonym obj = "string \<rightharpoonup> pyattr"

record env =
  getColumnNamesByType :: "dataframe \<Rightarrow> string list"
  eval_expr :: "dataframe \<Rightarrow> string \<Rightarrow> error + cell list"
  iter_names :: "string list \<Rightarrow> string list"
  iter_cells :: "cell list \<Rightarrow> cell list"

definition get_data :: "obj \<Rightarrow> error + dataframe" where
  "get_data self = (case self ''data'' of
       Some (ADataFrame d) \<Rightarrow> Inr d
     | Some _ \<Rightarrow> Inl (TypeError ''data'')
     | None \<Rightarrow> Inl (AttributeError ''data''))"

definition get_referenceKpis :: "obj \<Rightarrow> error + (string \<times> string) list" where
  "get_referenceKpis self = (case self ''referenceKpis'' of
       Some (ARefs r) \<Rightarrow> Inr r
     | Some _ \<Rightarrow> Inl (TypeError ''referenceKpis'')
     | None \<Rightarrow> Inl (AttributeError ''referenceKpis''))"

text \<open>\<open>reportKpiNames or getColumnNamesByType(data, np.float64)\<close>: an empty list is falsy.\<close>

definition report_names :: "env \<Rightarrow> dataframe \<Rightarrow> string list option \<Rightarrow> string list" where
  "report_names E data reportKpiNames =
     (case reportKpiNames of
        None \<Rightarrow> getColumnNamesByType E data
      | Some [] \<Rightarrow> getColumnNamesByType E data
      | Some ks \<Rightarrow> ks)"

definition experimentColumnNames :: "string list" where
  "experimentColumnNames = [''entity'', ''variant'']"

text \<open>
  The required columns, as the elements of the set built by lines 40 to 45: first the
  difference, then the names found in each formula.
\<close>

definition required_columns :: "string list \<Rightarrow> kpi_spec list \<Rightarrow> string list" where
  "required_columns report derivedKpis =
     foldl (\<lambda>req f. req @ findall_names f)
       (filter (\<lambda>c. c \<notin> set (map name derivedKpis)) (report @ experimentColumnNames))
       (map formula derivedKpis)"

definition missing_column_error :: "string \<Rightarrow> error" where
  "missing_column_error c = ValueError (''No column '' @ c @ '' provided'')"

text \<open>The loop of lines 60 to 62, on the instance; an exception leaves the instance as it is then.\<close>

fun add_derived :: "env \<Rightarrow> (string \<times> string) list \<Rightarrow> obj \<Rightarrow> error option \<times> obj" where
  "add_derived E [] self = (None, self)"
| "add_derived E ((n, f) # rest) self =
     (case get_data self of
        Inl e \<Rightarrow> (Some e, self)
      | Inr d \<Rightarrow>
          (case eval_expr E d (subst_names f) of
             Inl e \<Rightarrow> (Some e, self)
           | Inr col \<Rightarrow>
               (let self1 = self(''data'' \<mapsto> ADataFrame (set_column d n col))
                in case get_referenceKpis self1 of
                     Inl e \<Rightarrow> (Some e, self1)
                   | Inr refs \<Rightarrow>
                       add_derived E rest
                         (self1(''referenceKpis'' \<mapsto> ARefs (dict_set refs n (strip_name_slash f)))))))"

definition Experiment_init ::
  "env \<Rightarrow> cell \<Rightarrow> dataframe \<Rightarrow> (string \<times> string) list \<Rightarrow> string list option
     \<Rightarrow> kpi_spec list \<Rightarrow> obj \<Rightarrow> error option \<times> obj" where
  "Experiment_init E controlVariantName data metadata reportKpiNames derivedKpis self =
     (let report = report_names E data reportKpiNames;
          derivedKpiNames = map name derivedKpis;
          derivedKpiFormulas = map formula derivedKpis;
          requiredColumnNames = required_columns report derivedKpis
      in case List.find (\<lambda>c. \<not> has_column data c) (iter_names E requiredColumnNames) of
           Some c \<Rightarrow> (Some (missing_column_error c), self)
         | None \<Rightarrow>
             (case get_column data ''variant'' of
                Inl e \<Rightarrow> (Some (AttributeError ''variant''),
                           self(''data'' \<mapsto> ADataFrame data,
                                ''metadata'' \<mapsto> AMetadata metadata,
                                ''reportKpiNames'' \<mapsto> ANames report,
                                ''derivedKpis'' \<mapsto> ASpecs (zip derivedKpiNames derivedKpiFormulas)))
              | Inr vs \<Rightarrow>
                  add_derived E (zip derivedKpiNames derivedKpiFormulas)
                    (self(''data'' \<mapsto> ADataFrame data,
                          ''metadata'' \<mapsto> AMetadata metadata,
                          ''reportKpiNames'' \<mapsto> ANames report,
                          ''derivedKpis'' \<mapsto> ASpecs (zip derivedKpiNames derivedKpiFormulas),
                          ''variantNames'' \<mapsto> ACells (iter_cells E vs),
                          ''controlVariantName'' \<mapsto> ACell controlVariantName,
                          ''referenceKpis'' \<mapsto> ARefs []))))"

text \<open>\<open>Experiment(...)\<close>: the caller gets the instance only when \<open>__init__\<close> returns.\<close>

definition Experiment ::
  "env \<Rightarrow> cell \<Rightarrow> dataframe \<Rightarrow> (string \<times> string) list \<Rightarrow> string list option
     \<Rightarrow> kpi_spec list \<Rightarrow> error + obj" where
  "Experiment E controlVariantName data metadata reportKpiNames derivedKpis =
     (case Experiment_init E controlVariantName data metadata reportKpiNames derivedKpis Map.empty of
        (None, self) \<Rightarrow> Inr self
      | (Some e, _) \<Rightarrow> Inl e)"


section \<open>Arithmetic on cells\<close>

fun fadd :: "f64 \<Rightarrow> f64 \<Rightarrow> f64" where
  "fadd NaN _ = NaN"
| "fadd _ NaN = NaN"
| "fadd (Fin a) (Fin b) = Fin (a + b)"
| "fadd PInf NInf = NaN"
| "fadd NInf PInf = NaN"
| "fadd PInf _ = PInf"
| "fadd _ PInf = PInf"
| "fadd NInf _ = NInf"
| "fadd _ NInf = NInf"

definition fneg :: "f64 \<Rightarrow> f64" where
  "fneg v = (case v of Fin a \<Rightarrow> Fin (- a) | PInf \<Rightarrow> NInf | NInf \<Rightarrow> PInf | NaN \<Rightarrow> NaN)"

fun fmul :: "f64 \<Rightarrow> f64 \<Rightarrow> f64" where
  "fmul NaN _ = NaN"
| "fmul _ NaN = NaN"
| "fmul (Fin a) (Fin b) = Fin (a * b)"
| "fmul (Fin a) w = (if a = 0 then NaN else if 0 < a then w else fneg w)"
| "fmul w (Fin b) = (if b = 0 then NaN else if 0 < b then w else fneg w)"
| "fmul PInf w = w"
| "fmul NInf w = fneg w"

fun fdiv :: "f64 \<Rightarrow> f64 \<Rightarrow> f64" where
  "fdiv NaN _ = NaN"
| "fdiv _ NaN = NaN"
| "fdiv (Fin a) (Fin b) =
     (if b = 0 then (if a = 0 then NaN else if 0 < a then PInf else NInf) else Fin (a / b))"
| "fdiv (Fin a) _ = Fin 0"
| "fdiv w (Fin b) = (if 0 \<le> b then w else fneg w)"
| "fdiv _ _ = NaN"

text \<open>\<open>np.nansum\<close>: a missing value counts as zero.\<close>

definition nansum :: "f64 list \<Rightarrow> f64" where
  "nansum xs = foldl fadd (Fin 0) (map (\<lambda>v. if v = NaN then Fin 0 else v) xs)"

text \<open>A numeric series out of a column: \<open>np.isnan\<close> and the product reject text cells.\<close>

fun as_floats :: "cell list \<Rightarrow> error + f64 list" where
  "as_floats [] = Inr []"
| "as_floats (S _ # cs) = Inl (TypeError ''not a number'')"
| "as_floats (F v # cs) = (case as_floats cs of Inl e \<Rightarrow> Inl e | Inr vs \<Rightarrow> Inr (v # vs))"

datatype weights = Scalar f64 | Series "f64 list"

text \<open>\<open>values * weight\<close>: a scalar is broadcast, a series is multiplied row by row.\<close>

definition times :: "cell list \<Rightarrow> weights \<Rightarrow> error + f64 list" where
  "times xs w =
     (case as_floats xs of
        Inl e \<Rightarrow> Inl e
      | Inr vs \<Rightarrow>
          (case w of
             Scalar c \<Rightarrow> Inr (map (\<lambda>v. fmul v c) vs)
           | Series ws \<Rightarrow> Inr (map2 fmul vs ws)))"

section \<open>Selection and weights\<close>




text \<open>
  \<open>self.data.reset_index().set_index('variant').loc[variant, name]\<close>: the variant column
  becomes the row label and is no column any more; the selection is the cells of column
  \<open>name\<close> in the rows labelled \<open>variant\<close>, in row order, and a label or a column
  that is not there is a KeyError. The frame is taken with its default row index, and
  the selection of a single row is taken as the series of that one cell.
\<close>

definition select_rows :: "cell list \<Rightarrow> cell \<Rightarrow> cell list \<Rightarrow> cell list" where
  "select_rows labels v col = map snd (filter (\<lambda>(l, x). l = v) (zip labels col))"

definition getKPIbyNameAndVariant :: "obj \<Rightarrow> string \<Rightarrow> cell \<Rightarrow> error + cell list" where
  "getKPIbyNameAndVariant self nm variant =
     (case get_data self of
        Inl e \<Rightarrow> Inl e
      | Inr d \<Rightarrow>
          (case get_column d ''variant'' of
             Inl e \<Rightarrow> Inl e
           | Inr labels \<Rightarrow>
               if variant \<notin> set labels then Inl (KeyError ''variant label'')
               else (case get_column (filter (\<lambda>(k, c). k \<noteq> ''variant'') d) nm of
                       Inl e \<Rightarrow> Inl e
                     | Inr col \<Rightarrow> Inr (select_rows labels variant col))))"

definition count_true :: "('a \<Rightarrow> bool) \<Rightarrow> 'a list \<Rightarrow> int" where
  "count_true P xs = int (length (filter P xs))"

definition getWeights :: "obj \<Rightarrow> string \<Rightarrow> cell \<Rightarrow> error + weights" where
  "getWeights self kpi variant =
     (case get_referenceKpis self of
        Inl e \<Rightarrow> Inl e
      | Inr refs \<Rightarrow>
          (case map_of refs kpi of
             None \<Rightarrow> Inr (Scalar (Fin 1))
           | Some referenceKpi \<Rightarrow>
               (case getKPIbyNameAndVariant self referenceKpi variant of
                  Inl e \<Rightarrow> Inl e
                | Inr cells \<Rightarrow>
                    (case as_floats cells of
                       Inl e \<Rightarrow> Inl e
                     | Inr x \<Rightarrow>
                         (let zerosAndNans = count_true (\<lambda>v. v = Fin 0) x + count_true (\<lambda>v. v = NaN) x;
                              nonZeros = int (length x) - zerosAndNans
                          in Inr (Series (map (\<lambda>v. fmul (fdiv (Fin (of_int nonZeros)) (nansum x)) v) x)))))))"

section \<open>Plain delta\<close>







section \<open>Declaration order, stated on its own\<close>

text \<open>
  Evaluating the derived KPIs one after the other, each over the table that holds the
  columns stored before it. \<open>add_derived\<close> is compared with this.
\<close>

fun derive_in_order :: "env \<Rightarrow> dataframe \<Rightarrow> (string \<times> string) list \<Rightarrow> error + dataframe" where
  "derive_in_order E d [] = Inr d"
| "derive_in_order E d ((n, f) # rest) =
     (case eval_expr E d (subst_names f) of
        Inl e \<Rightarrow> Inl e
      | Inr col \<Rightarrow> derive_in_order E (set_column d n col) rest)"

definition spec_pairs :: "kpi_spec list \<Rightarrow> (string \<times> string) list" where
  "spec_pairs derivedKpis = zip (map name derivedKpis) (map formula derivedKpis)"

definition is_identifier :: "string \<Rightarrow> bool" where
  "is_identifier s = (case s of [] \<Rightarrow> False | c # cs \<Rightarrow> is_alpha c \<and> (\<forall>x \<in> set cs. is_word x))"

section \<open>A small table and evaluator to run the definitions on\<close>

text \<open>
  An evaluator for the two shapes \<open>x/y\<close> and \<open>x+y\<close> over column references,
  enough to run the constructor on examples.
\<close>

definition column_ref :: "string \<Rightarrow> (string \<times> string) option" where
  "column_ref s =
     (if take 10 s = ''self.data.''
      then (let r = drop 10 s; n = takeWhile is_word r; r2 = dropWhile is_word r
            in if take 14 r2 = ''.astype(float)'' then Some (n, drop 14 r2) else None)
      else None)"

definition binop_eval :: "dataframe \<Rightarrow> string \<Rightarrow> error + cell list" where
  "binop_eval df s =
     (case column_ref s of
        None \<Rightarrow> Inl (WorkerError ''syntax'')
      | Some (n1, rest) \<Rightarrow>
          (case rest of
             [] \<Rightarrow> Inl (WorkerError ''syntax'')
           | opc # rest2 \<Rightarrow>
               (case column_ref rest2 of
                  None \<Rightarrow> Inl (WorkerError ''syntax'')
                | Some (n2, rest3) \<Rightarrow>
                    if rest3 \<noteq> [] \<or> opc \<notin> set ''/+'' then Inl (WorkerError ''syntax'')
                    else (case get_column df n1 of
                            Inl e \<Rightarrow> Inl (AttributeError n1)
                          | Inr c1 \<Rightarrow>
                              (case get_column df n2 of
                                 Inl e \<Rightarrow> Inl (AttributeError n2)
                               | Inr c2 \<Rightarrow>
                                   (case as_floats c1 of
                                      Inl e \<Rightarrow> Inl e
                                    | Inr xs \<Rightarrow>
                                        (case as_floats c2 of
                                           Inl e \<Rightarrow> Inl e
                                         | Inr ys \<Rightarrow>
                                             Inr (map F (map2 (if opc = CHR ''/'' then fdiv else fadd) xs ys)))))))))"

definition ex_env :: env where
  "ex_env = \<lparr>getColumnNamesByType = (\<lambda>df. []), eval_expr = binop_eval,
             iter_names = remdups, iter_cells = remdups\<rparr>"

definition ex_data :: dataframe where
  "ex_data =
     [(''entity'', [S ''e1'', S ''e2'', S ''e3'', S ''e4'']),
      (''variant'', [S ''A'', S ''B'', S ''A'', S ''B'']),
      (''a'', [F (Fin 2), F (Fin 6), F (Fin 0), F (Fin 3)]),
      (''b'', [F (Fin 1), F (Fin 2), F (Fin 4), F NaN])]"

definition ex_data_r :: dataframe where
  "ex_data_r = ex_data @ [(''r'', [F (Fin 10), F (Fin 10), F (Fin 10), F (Fin 10)])]"

definition ex_ratio :: kpi_spec where
  "ex_ratio = \<lparr>name = ''r'', formula = ''a/b''\<rparr>"

definition ex_later :: kpi_spec where
  "ex_later = \<lparr>name = ''s'', formula = ''r/b''\<rparr>"

definition ex_sum :: kpi_spec where
  "ex_sum = \<lparr>name = ''t'', formula = ''a+b''\<rparr>"

section \<open>What a finished constructor leaves behind\<close>

text \<open>The required columns in the words of the data model.\<close>

definition required_column_set :: "string list \<Rightarrow> kpi_spec list \<Rightarrow> string set" where
  "required_column_set report derivedKpis =
     ((set report \<union> {''entity'', ''variant''}) - set (map name derivedKpis))
       \<union> (\<Union>f \<in> set (map formula derivedKpis). set (findall_names f))"

text \<open>The reference entries after the loop: one assignment per derived KPI, in order.\<close>

definition record_refs :: "(string \<times> string) list \<Rightarrow> (string \<times> string) list \<Rightarrow> (string \<times> string) list" where
  "record_refs refs specs = foldl (\<lambda>r (n, f). dict_set r n (strip_name_slash f)) refs specs"

text \<open>The seven attributes of an instance whose constructor has returned.\<close>

definition instance_after_init ::
  "env \<Rightarrow> cell \<Rightarrow> dataframe \<Rightarrow> (string \<times> string) list \<Rightarrow> string list \<Rightarrow> kpi_spec list
     \<Rightarrow> cell list \<Rightarrow> obj" where
  "instance_after_init E cv d md report derivedKpis vs =
     [''data'' \<mapsto> ADataFrame d,
      ''metadata'' \<mapsto> AMetadata md,
      ''reportKpiNames'' \<mapsto> ANames report,
      ''derivedKpis'' \<mapsto> ASpecs (spec_pairs derivedKpis),
      ''variantNames'' \<mapsto> ACells (iter_cells E vs),
      ''controlVariantName'' \<mapsto> ACell cv,
      ''referenceKpis'' \<mapsto> ARefs (record_refs [] (spec_pairs derivedKpis))]"

section \<open>The weighted sample, stated on its own\<close>


fun is_number :: "cell \<Rightarrow> bool" where
  "is_number (F _) = True"
| "is_number (S _) = False"




text \<open>The instance built from the small table with the derived KPIs \<open>r = a/b\<close> and \<open>t = a+b\<close>.\<close>

definition ex_table :: dataframe where
  "ex_table = ex_data @ [(''r'', [F (Fin 2), F (Fin 3), F (Fin 0), F NaN]),
                         (''t'', [F (Fin 3), F (Fin 8), F (Fin 4), F NaN])]"

definition ex_self :: obj where
  "ex_self = instance_after_init ex_env (S ''A'') ex_table [] [''r''] [ex_ratio, ex_sum]
               [S ''A'', S ''B'', S ''A'', S ''B'']"

section \<open>The binned-delta engine\<close>

text \<open>
  The engine works on a projection of three columns (variant, binning source, KPI), kept
  here by rows with the three column labels. A binning object says whether it is a
  numerical binning and labels a column of values; the labels are compared with \<open>\<le>\<close> in
  the cumulative mode.
\<close>

record frame3 =
  names3 :: "string \<times> string \<times> string"
  rows3 :: "(cell \<times> cell \<times> cell) list"

record 'b binning =
  numerical :: bool
  label :: "cell list \<Rightarrow> string \<Rightarrow> 'b list"

text \<open>
  One cell block of the result table: the block that \<open>delta_to_dataframe_all_variants\<close>
  makes of a worker result, under the two key components added to it in lines 497 to 499.
\<close>

record ('b, 'fr) delta_row =
  variant_key :: cell
  bin_key :: 'b
  piece :: 'fr

datatype 'b results_meta = MetaDict "(string \<times> string) list" | MetaBinning "'b binning"

text \<open>
  Modelled from the spec: the class \<open>Results\<close> of \<open>expan.core.results\<close> is not among the
  sources. As the methods use it and as the output is described, an instance holds a
  result table (or none), the metadata it was made with, and the warnings recorded by
  operation name.
\<close>

record ('t, 'b) results =
  res_df :: "'t option"
  res_metadata :: "'b results_meta"
  res_warnings :: "(string \<times> string) list"

text \<open>
  What the module takes from outside: the names bound in its namespace, the helpers of
  \<open>expan.core.results\<close> and of the binning and statistics modules, and the index
  operations of the table library that only rename or drop key levels.
\<close>

record ('b, 'ds, 'fr, 'fc, 'cs) ext =
  bound_names :: "string list"
  delta_to_dataframe_all_variants :: "string \<Rightarrow> 'ds \<Rightarrow> 'fr"
  feature_check_numerical :: "string \<Rightarrow> 'ds \<Rightarrow> 'fc"
  feature_check_categorical :: "string \<Rightarrow> 'cs \<Rightarrow> 'fc"
  chi_square_stats :: "cell list \<Rightarrow> cell list \<Rightarrow> 'cs"
  create_binning :: "cell list \<Rightarrow> nat \<Rightarrow> 'b binning"
  NumericalBinning :: "cell list \<Rightarrow> 'b binning"
  np_unique :: "cell list \<Rightarrow> cell list"
  relabel_subgroup :: "string \<Rightarrow> ('b, 'fr) delta_row list \<Rightarrow> ('b, 'fr) delta_row list"
  relabel_time :: "('b, 'fr) delta_row list \<Rightarrow> ('b, 'fr) delta_row list"

text \<open>
  The names the module binds at top level as it is written: the imports of lines 1 to 12,
  \<open>logger\<close> and the class. The import of \<open>expan.core.results\<close> is a comment.
\<close>

definition module_names :: "string list" where
  "module_names = [''logging'', ''re'', ''warnings'', ''np'', ''pd'', ''binmodule'', ''es'',
                   ''statx'', ''getColumnNamesByType'', ''logger'', ''Experiment'']"

definition load_global :: "('b, 'ds, 'fr, 'fc, 'cs, 'z) ext_scheme \<Rightarrow> string \<Rightarrow> error + unit" where
  "load_global X n = (if n \<in> set (bound_names X) then Inr () else Inl (NameError n))"

text \<open>\<open>Series.unique()\<close>: the distinct values in the order of their first occurrence.\<close>

fun unique_acc :: "'a list \<Rightarrow> 'a list \<Rightarrow> 'a list" where
  "unique_acc seen [] = []"
| "unique_acc seen (x # xs) =
     (if x \<in> set seen then unique_acc seen xs else x # unique_acc (x # seen) xs)"

definition unique :: "'a list \<Rightarrow> 'a list" where
  "unique xs = unique_acc [] xs"

text \<open>\<open>f['variant']\<close> on the projection: the one column of that label.\<close>

definition variant_column :: "string \<times> string \<times> string \<Rightarrow> ((cell \<times> cell \<times> cell) \<times> 'b) list
     \<Rightarrow> error + cell list" where
  "variant_column ns f =
     (case ns of (c0, c1, c2) \<Rightarrow>
        (case filter (\<lambda>i. [c0, c1, c2] ! i = ''variant'') [0, 1, 2] of
           [] \<Rightarrow> Inl (KeyError ''variant'')
         | [i] \<Rightarrow> Inr (map (\<lambda>((a, b, c), l). [a, b, c] ! i) f)
         | _ \<Rightarrow> Inl (AttributeError ''unique'')))"

text \<open>\<open>f.iloc[:, 2][f.iloc[:, 0] == v]\<close>\<close>

definition metric_of :: "cell \<Rightarrow> ((cell \<times> cell \<times> cell) \<times> 'b) list \<Rightarrow> cell list" where
  "metric_of v f = map (\<lambda>((a, b, c), l). c) (filter (\<lambda>((a, b, c), l). a = v) f)"

text \<open>The loop of lines 492 to 504 inside \<open>do_delta\<close>.\<close>

fun do_delta_loop ::
  "('b, 'ds, 'fr, 'fc, 'cs, 'z) ext_scheme \<Rightarrow> (cell list \<Rightarrow> cell list \<Rightarrow> 'ds) \<Rightarrow> string
     \<Rightarrow> ((cell \<times> cell \<times> cell) \<times> 'b) list \<Rightarrow> 'b \<Rightarrow> cell list \<Rightarrow> cell list
     \<Rightarrow> ('b, 'fr) delta_row list \<Rightarrow> error + ('b, 'fr) delta_row list" where
  "do_delta_loop X deltaWorker metric f bin_name baseline_metric [] out_df = Inr out_df"
| "do_delta_loop X deltaWorker metric f bin_name baseline_metric (v # vs) out_df =
     (case load_global X ''delta_to_dataframe_all_variants'' of
        Inl e \<Rightarrow> Inl e
      | Inr _ \<Rightarrow>
          do_delta_loop X deltaWorker metric f bin_name baseline_metric vs
            (out_df @ [\<lparr>variant_key = v, bin_key = bin_name,
                        piece = delta_to_dataframe_all_variants X metric
                                  (deltaWorker (metric_of v f) baseline_metric)\<rparr>]))"

definition do_delta ::
  "('b, 'ds, 'fr, 'fc, 'cs, 'z) ext_scheme \<Rightarrow> cell list \<Rightarrow> (cell list \<Rightarrow> cell list \<Rightarrow> 'ds)
     \<Rightarrow> string \<times> string \<times> string \<Rightarrow> ((cell \<times> cell \<times> cell) \<times> 'b) list \<Rightarrow> 'b
     \<Rightarrow> error + ('b, 'fr) delta_row list" where
  "do_delta X variants deltaWorker ns f bin_name =
     (if length variants < 2 then Inl (IndexError ''list index out of range'')
      else (case variant_column ns f of
              Inl e \<Rightarrow> Inl e
            | Inr vcol \<Rightarrow>
                do_delta_loop X deltaWorker (snd (snd ns)) f bin_name
                  (metric_of (variants ! 1) f) (unique vcol) []))"

text \<open>The row subset of a bin, lines 512 and 514.\<close>

definition bin_rows :: "bool \<Rightarrow> ((cell \<times> cell \<times> cell) \<times> 'b::ord) list \<Rightarrow> 'b
     \<Rightarrow> ((cell \<times> cell \<times> cell) \<times> 'b) list" where
  "bin_rows cumulative f b =
     (if \<not> cumulative then filter (\<lambda>(r, l). l = b) f else filter (\<lambda>(r, l). l \<le> b) f)"

text \<open>The loop of lines 510 to 514.\<close>

fun bins_loop ::
  "('b::ord, 'ds, 'fr, 'fc, 'cs, 'z) ext_scheme \<Rightarrow> cell list \<Rightarrow> (cell list \<Rightarrow> cell list \<Rightarrow> 'ds)
     \<Rightarrow> string \<times> string \<times> string \<Rightarrow> bool \<Rightarrow> ((cell \<times> cell \<times> cell) \<times> 'b) list
     \<Rightarrow> 'b list \<Rightarrow> ('b, 'fr) delta_row list \<Rightarrow> error + ('b, 'fr) delta_row list" where
  "bins_loop X variants deltaWorker ns cumulative f [] result = Inr result"
| "bins_loop X variants deltaWorker ns cumulative f (b # bs) result =
     (case do_delta X variants deltaWorker ns (bin_rows cumulative f b) b of
        Inl e \<Rightarrow> Inl e
      | Inr out_df \<Rightarrow> bins_loop X variants deltaWorker ns cumulative f bs (result @ out_df))"

text \<open>
  \<open>_binned_deltas\<close>. The table is kept as the sequence of its keyed blocks; unstacking
  the variant level and swapping index levels (lines 517 to 522) rearrange the keys of
  these blocks, and they need the key levels that only a non-empty table has.
\<close>

definition binned_deltas ::
  "('b::ord, 'ds, 'fr, 'fc, 'cs, 'z) ext_scheme \<Rightarrow> frame3 \<Rightarrow> cell list \<Rightarrow> nat \<Rightarrow> 'b binning option
     \<Rightarrow> bool \<Rightarrow> string \<Rightarrow> (cell list \<Rightarrow> cell list \<Rightarrow> 'ds)
     \<Rightarrow> error + (('b, 'fr) delta_row list, 'b) results" where
  "binned_deltas X df variants n_bins binning_arg cumulative label_format_str deltaWorker =
     (let source = map (\<lambda>(a, b, c). b) (rows3 df);
          binning = (case binning_arg of None \<Rightarrow> create_binning X source n_bins | Some bn \<Rightarrow> bn)
      in if cumulative \<and> \<not> numerical binning
         then Inl (ValueError ''Cannot calculate cumulative deltas for non-numerical binnings'')
         else (let labels = label binning source label_format_str
               in if length labels \<noteq> length (rows3 df)
                  then Inl (ValueError ''Length of values does not match length of index'')
                  else (case bins_loop X variants deltaWorker (names3 df) cumulative
                               (zip (rows3 df) labels) (unique labels) [] of
                          Inl e \<Rightarrow> Inl e
                        | Inr result \<Rightarrow>
                            if result = [] then Inl (PandasError ''no index levels to reshape'')
                            else (case load_global X ''Results'' of
                                    Inl e \<Rightarrow> Inl e
                                  | Inr _ \<Rightarrow>
                                      Inr \<lparr>res_df = Some result,
                                           res_metadata = MetaBinning binning,
                                           res_warnings = []\<rparr>))))"


text \<open>A projection with two time points and three variants, and collaborators to run the engine on it.\<close>

definition ex_label :: "cell \<Rightarrow> int" where
  "ex_label c = (case c of F (Fin r) \<Rightarrow> \<lfloor>r\<rfloor> | _ \<Rightarrow> 0)"

definition ex_binning :: "int binning" where
  "ex_binning = \<lparr>numerical = True, label = (\<lambda>col fmt. map ex_label col)\<rparr>"

definition ex_ext :: "(int, cell list \<times> cell list, string \<times> cell list \<times> cell list, unit, unit) ext" where
  "ex_ext =
     \<lparr>bound_names = module_names @ [''Results'', ''delta_to_dataframe_all_variants'',
                                     ''feature_check_to_dataframe''],
      delta_to_dataframe_all_variants = (\<lambda>m ds. (m, ds)),
      feature_check_numerical = (\<lambda>m ds. ()),
      feature_check_categorical = (\<lambda>m cs. ()),
      chi_square_stats = (\<lambda>x y. ()),
      create_binning = (\<lambda>col n. ex_binning),
      NumericalBinning = (\<lambda>col. ex_binning),
      np_unique = remdups,
      relabel_subgroup = (\<lambda>feature t. t),
      relabel_time = (\<lambda>t. t)\<rparr>"


definition ex_worker :: "cell list \<Rightarrow> cell list \<Rightarrow> cell list \<times> cell list" where
  "ex_worker x y = (x, y)"

section \<open>The three analysis methods below the banner\<close>

definition getattr :: "obj \<Rightarrow> string \<Rightarrow> error + pyattr" where
  "getattr self n = (case self n of None \<Rightarrow> Inl (AttributeError n) | Some a \<Rightarrow> Inr a)"

text \<open>\<open>Results(None, metadata=self.metadata)\<close>: the name is loaded first, then the argument.\<close>

definition new_results ::
  "('b, 'ds, 'fr, 'fc, 'cs, 'z) ext_scheme \<Rightarrow> obj \<Rightarrow> error + ('t, 'b) results" where
  "new_results X self =
     (case load_global X ''Results'' of
        Inl e \<Rightarrow> Inl e
      | Inr _ \<Rightarrow>
          (case getattr self ''metadata'' of
             Inl e \<Rightarrow> Inl e
           | Inr (AMetadata md) \<Rightarrow> Inr \<lparr>res_df = None, res_metadata = MetaDict md, res_warnings = []\<rparr>
           | Inr _ \<Rightarrow> Inl (TypeError ''metadata'')))"

text \<open>A subset argument, or the attribute that stands in for it when it is \<open>None\<close>.\<close>

definition names_or_attr :: "obj \<Rightarrow> string list option \<Rightarrow> string \<Rightarrow> error + string list" where
  "names_or_attr self arg n =
     (case arg of
        Some ks \<Rightarrow> Inr ks
      | None \<Rightarrow> (case getattr self n of
                   Inl e \<Rightarrow> Inl e
                 | Inr (ANames ks) \<Rightarrow> Inr ks
                 | Inr _ \<Rightarrow> Inl (TypeError n)))"

definition value_or_attr :: "obj \<Rightarrow> pyattr option \<Rightarrow> string \<Rightarrow> error + pyattr" where
  "value_or_attr self arg n = (case arg of Some a \<Rightarrow> Inr a | None \<Rightarrow> getattr self n)"

definition baseline_of :: "obj \<Rightarrow> error + cell" where
  "baseline_of self =
     (case getattr self ''baseline_variant'' of
        Inl e \<Rightarrow> Inl e
      | Inr (ACell c) \<Rightarrow> Inr c
      | Inr _ \<Rightarrow> Inl (TypeError ''baseline_variant''))"

text \<open>\<open>variant_subset - set([self.baseline_variant])\<close>: the difference is defined on a set.\<close>

definition remove_baseline :: "obj \<Rightarrow> pyattr \<Rightarrow> error + cell list" where
  "remove_baseline self variant_subset =
     (case baseline_of self of
        Inl e \<Rightarrow> Inl e
      | Inr base \<Rightarrow>
          (case variant_subset of
             ACellSet vs \<Rightarrow> Inr (filter (\<lambda>v. v \<noteq> base) vs)
           | _ \<Rightarrow> Inl (TypeError ''unsupported operand type(s) for -'')))"

text \<open>\<open>frame.reset_index()[[c0, c1, c2]]\<close>\<close>

definition project3 :: "pyattr \<Rightarrow> string \<Rightarrow> string \<Rightarrow> string \<Rightarrow> error + frame3" where
  "project3 frame c0 c1 c2 =
     (case frame of
        AIndexedFrame idx d \<Rightarrow>
          (case get_column d c0 of
             Inl e \<Rightarrow> Inl e
           | Inr x0 \<Rightarrow>
               (case get_column d c1 of
                  Inl e \<Rightarrow> Inl e
                | Inr x1 \<Rightarrow>
                    (case get_column d c2 of
                       Inl e \<Rightarrow> Inl e
                     | Inr x2 \<Rightarrow> Inr \<lparr>names3 = (c0, c1, c2), rows3 = zip x0 (zip x1 x2)\<rparr>)))
      | _ \<Rightarrow> Inl (AttributeError ''reset_index''))"

text \<open>\<open>pd.concat([a, b])\<close> on result tables, either of which may be \<open>None\<close>.\<close>

definition concat_df :: "'a list option \<Rightarrow> 'a list option \<Rightarrow> error + 'a list option" where
  "concat_df a b =
     (case (a, b) of
        (None, None) \<Rightarrow> Inl (ValueError ''All objects passed were None'')
      | (Some s, None) \<Rightarrow> Inr (Some s)
      | (None, Some t) \<Rightarrow> Inr (Some t)
      | (Some s, Some t) \<Rightarrow> Inr (Some (s @ t)))"

definition subgroup_deltas ::
  "('b::ord, 'ds, 'fr, 'fc, 'cs, 'z) ext_scheme \<Rightarrow> frame3 \<Rightarrow> cell list \<Rightarrow> nat
     \<Rightarrow> (cell list \<Rightarrow> cell list \<Rightarrow> 'ds) \<Rightarrow> error + (('b, 'fr) delta_row list, 'b) results" where
  "subgroup_deltas X df variants n_bins deltaWorker =
     (case binned_deltas X df variants n_bins None False ''{standard}'' deltaWorker of
        Inl e \<Rightarrow> Inl e
      | Inr result \<Rightarrow>
          Inr (result\<lparr>res_df := map_option (relabel_subgroup X (fst (snd (names3 df)))) (res_df result)\<rparr>))"

definition time_dependent_deltas ::
  "('b::ord, 'ds, 'fr, 'fc, 'cs, 'z) ext_scheme \<Rightarrow> frame3 \<Rightarrow> cell list \<Rightarrow> nat \<Rightarrow> bool
     \<Rightarrow> (cell list \<Rightarrow> cell list \<Rightarrow> 'ds) \<Rightarrow> error + (('b, 'fr) delta_row list, 'b) results" where
  "time_dependent_deltas X df variants time_step cumulative deltaWorker =
     (let tpoints = np_unique X (map (\<lambda>(a, b, c). b) (rows3 df));
          binning = NumericalBinning X tpoints
      in case binned_deltas X df variants 4 (Some binning) cumulative ''{mid}'' deltaWorker of
           Inl e \<Rightarrow> Inl e
         | Inr result \<Rightarrow> Inr (result\<lparr>res_df := map_option (relabel_time X) (res_df result)\<rparr>))"

text \<open>The two loops of \<open>sga\<close>, lines 244 to 252.\<close>

fun sga_features ::
  "('b::ord, 'ds, 'fr, 'fc, 'cs, 'z) ext_scheme \<Rightarrow> obj \<Rightarrow> pyattr \<Rightarrow> nat \<Rightarrow> (cell list \<Rightarrow> cell list \<Rightarrow> 'ds)
     \<Rightarrow> string \<Rightarrow> string list \<Rightarrow> (('b, 'fr) delta_row list, 'b) results
     \<Rightarrow> error + (('b, 'fr) delta_row list, 'b) results" where
  "sga_features X self metrics n_bins deltaWorker kpi [] res = Inr res"
| "sga_features X self metrics n_bins deltaWorker kpi (feature # fs) res =
     (case project3 metrics ''variant'' feature kpi of
        Inl e \<Rightarrow> Inl e
      | Inr df \<Rightarrow>
          (case baseline_of self of
             Inl e \<Rightarrow> Inl e
           | Inr base \<Rightarrow>
               (case subgroup_deltas X df [S ''dummy'', base] n_bins deltaWorker of
                  Inl e \<Rightarrow> Inl e
                | Inr sub \<Rightarrow>
                    (case concat_df (res_df res) (res_df sub) of
                       Inl e \<Rightarrow> Inl e
                     | Inr t \<Rightarrow>
                         sga_features X self metrics n_bins deltaWorker kpi fs (res\<lparr>res_df := t\<rparr>)))))"

fun sga_kpis ::
  "('b::ord, 'ds, 'fr, 'fc, 'cs, 'z) ext_scheme \<Rightarrow> obj \<Rightarrow> pyattr \<Rightarrow> nat \<Rightarrow> (cell list \<Rightarrow> cell list \<Rightarrow> 'ds)
     \<Rightarrow> string list \<Rightarrow> string list \<Rightarrow> (('b, 'fr) delta_row list, 'b) results
     \<Rightarrow> error + (('b, 'fr) delta_row list, 'b) results" where
  "sga_kpis X self metrics n_bins deltaWorker [] features res = Inr res"
| "sga_kpis X self metrics n_bins deltaWorker (kpi # ks) features res =
     (case sga_features X self metrics n_bins deltaWorker kpi features res of
        Inl e \<Rightarrow> Inl e
      | Inr res1 \<Rightarrow> sga_kpis X self metrics n_bins deltaWorker ks features res1)"

definition sga ::
  "('b::ord, 'ds, 'fr, 'fc, 'cs, 'z) ext_scheme \<Rightarrow> obj \<Rightarrow> string list option \<Rightarrow> string list option
     \<Rightarrow> pyattr option \<Rightarrow> nat \<Rightarrow> (cell list \<Rightarrow> cell list \<Rightarrow> 'ds)
     \<Rightarrow> error + (('b, 'fr) delta_row list, 'b) results" where
  "sga X self feature_subset kpi_subset variant_subset n_bins deltaWorker =
     (case new_results X self of
        Inl e \<Rightarrow> Inl e
      | Inr res \<Rightarrow>
          (case getattr self ''metrics'' of
             Inl e \<Rightarrow> Inl e
           | Inr metrics \<Rightarrow>
               if metrics = ANone then Inr res
               else (case names_or_attr self kpi_subset ''kpi_names'' of
                       Inl e \<Rightarrow> Inl e
                     | Inr kpis \<Rightarrow>
                         (case names_or_attr self feature_subset ''feature_names'' of
                            Inl e \<Rightarrow> Inl e
                          | Inr features \<Rightarrow>
                              (case value_or_attr self variant_subset ''variant_names'' of
                                 Inl e \<Rightarrow> Inl e
                               | Inr vsub \<Rightarrow>
                                   (case remove_baseline self vsub of
                                      Inl e \<Rightarrow> Inl e
                                    | Inr variants_left \<Rightarrow>
                                        sga_kpis X self metrics n_bins deltaWorker kpis features res))))))"

text \<open>
  The loops of \<open>trend\<close>, lines 319 to 329. The state is the result so far and the last
  \<open>res_obj\<close>, a name that is bound only once the inner loop has run.
\<close>

fun trend_variants ::
  "('b::ord, 'ds, 'fr, 'fc, 'cs, 'z) ext_scheme \<Rightarrow> obj \<Rightarrow> pyattr \<Rightarrow> nat \<Rightarrow> bool
     \<Rightarrow> (cell list \<Rightarrow> cell list \<Rightarrow> 'ds) \<Rightarrow> string \<Rightarrow> cell list
     \<Rightarrow> (('b, 'fr) delta_row list, 'b) results \<times> (('b, 'fr) delta_row list, 'b) results option
     \<Rightarrow> error + ((('b, 'fr) delta_row list, 'b) results
                  \<times> (('b, 'fr) delta_row list, 'b) results option)" where
  "trend_variants X self kpis_time time_step cumulative deltaWorker kpi [] st = Inr st"
| "trend_variants X self kpis_time time_step cumulative deltaWorker kpi (variant # vs) st =
     (case project3 kpis_time ''variant'' ''time_since_treatment'' kpi of
        Inl e \<Rightarrow> Inl e
      | Inr df \<Rightarrow>
          (case baseline_of self of
             Inl e \<Rightarrow> Inl e
           | Inr base \<Rightarrow>
               (case time_dependent_deltas X df [variant, base] time_step cumulative deltaWorker of
                  Inl e \<Rightarrow> Inl e
                | Inr res_obj \<Rightarrow>
                    (case concat_df (res_df (fst st)) (res_df res_obj) of
                       Inl e \<Rightarrow> Inl e
                     | Inr t \<Rightarrow>
                         trend_variants X self kpis_time time_step cumulative deltaWorker kpi vs
                           ((fst st)\<lparr>res_df := t\<rparr>, Some res_obj)))))"

fun trend_kpis ::
  "('b::ord, 'ds, 'fr, 'fc, 'cs, 'z) ext_scheme \<Rightarrow> obj \<Rightarrow> pyattr \<Rightarrow> nat \<Rightarrow> bool
     \<Rightarrow> (cell list \<Rightarrow> cell list \<Rightarrow> 'ds) \<Rightarrow> string list \<Rightarrow> cell list
     \<Rightarrow> (('b, 'fr) delta_row list, 'b) results \<times> (('b, 'fr) delta_row list, 'b) results option
     \<Rightarrow> error + ((('b, 'fr) delta_row list, 'b) results
                  \<times> (('b, 'fr) delta_row list, 'b) results option)" where
  "trend_kpis X self kpis_time time_step cumulative deltaWorker [] variants st = Inr st"
| "trend_kpis X self kpis_time time_step cumulative deltaWorker (kpi # ks) variants st =
     (case trend_variants X self kpis_time time_step cumulative deltaWorker kpi variants st of
        Inl e \<Rightarrow> Inl e
      | Inr st1 \<Rightarrow> trend_kpis X self kpis_time time_step cumulative deltaWorker ks variants st1)"

text \<open>The warning that a recovery path records under the operation's key.\<close>

definition record_warning :: "('t, 'b) results \<Rightarrow> string \<Rightarrow> string \<Rightarrow> ('t, 'b) results" where
  "record_warning res key msg = res\<lparr>res_warnings := dict_set (res_warnings res) key msg\<rparr>"

definition index_names :: "pyattr \<Rightarrow> error + string list" where
  "index_names frame =
     (case frame of AIndexedFrame idx d \<Rightarrow> Inr idx | _ \<Rightarrow> Inl (AttributeError ''index''))"

text \<open>
  \<open>trend\<close>. After the loops \<open>res.set_binning(res_obj.binning)\<close> stores the binning of the
  last comparison with the result.
\<close>

definition trend ::
  "('b::ord, 'ds, 'fr, 'fc, 'cs, 'z) ext_scheme \<Rightarrow> obj \<Rightarrow> string list option \<Rightarrow> pyattr option
     \<Rightarrow> nat \<Rightarrow> bool \<Rightarrow> (cell list \<Rightarrow> cell list \<Rightarrow> 'ds)
     \<Rightarrow> error + (('b, 'fr) delta_row list, 'b) results" where
  "trend X self kpi_subset variant_subset time_step cumulative deltaWorker =
     (case new_results X self of
        Inl e \<Rightarrow> Inl e
      | Inr res \<Rightarrow>
          (case getattr self ''kpis_time'' of
             Inl e \<Rightarrow> Inl e
           | Inr kpis_time \<Rightarrow>
               if kpis_time = ANone
               then Inr (record_warning res ''Experiment.trend'' ''Empty data set entered to analysis.'')
               else (case index_names kpis_time of
                       Inl e \<Rightarrow> Inl e
                     | Inr idx \<Rightarrow>
                         if ''time_since_treatment'' \<notin> set idx
                         then Inr (record_warning res ''Experiment.trend''
                                     ''Need time column for trend analysis.'')
                         else (case names_or_attr self kpi_subset ''kpi_names'' of
                                 Inl e \<Rightarrow> Inl e
                               | Inr kpis \<Rightarrow>
                                   (case value_or_attr self variant_subset ''variant_names'' of
                                      Inl e \<Rightarrow> Inl e
                                    | Inr vsub \<Rightarrow>
                                        (case remove_baseline self vsub of
                                           Inl e \<Rightarrow> Inl e
                                         | Inr variants \<Rightarrow>
                                             (case trend_kpis X self kpis_time time_step cumulative
                                                     deltaWorker kpis variants (res, None) of
                                                Inl e \<Rightarrow> Inl e
                                              | Inr (res1, None) \<Rightarrow> Inl (NameError ''res_obj'')
                                              | Inr (res1, Some res_obj) \<Rightarrow>
                                                  Inr (res1\<lparr>res_metadata := res_metadata res_obj\<rparr>))))))))"

text \<open>
  \<open>_feature_check_all_variants\<close>: one block per variant group, the groups in the order of
  their sorted keys; a numeric feature goes to the worker, any other to the chi-square test.
\<close>

fun feature_groups ::
  "('b, 'ds, 'fr, 'fc, 'cs, 'z) ext_scheme \<Rightarrow> (cell list \<Rightarrow> cell list \<Rightarrow> 'ds) \<Rightarrow> string \<Rightarrow> bool
     \<Rightarrow> (cell \<times> cell \<times> cell) list \<Rightarrow> cell list \<Rightarrow> cell list \<Rightarrow> (cell \<times> 'fc) list
     \<Rightarrow> error + (cell \<times> 'fc) list" where
  "feature_groups X deltaWorker metric numeric rows baseline_metric [] out = Inr out"
| "feature_groups X deltaWorker metric numeric rows baseline_metric (v # vs) out =
     (case load_global X ''feature_check_to_dataframe'' of
        Inl e \<Rightarrow> Inl e
      | Inr _ \<Rightarrow>
          (let x = map (\<lambda>(a, b, c). c) (filter (\<lambda>(a, b, c). b = v) rows)
           in feature_groups X deltaWorker metric numeric rows baseline_metric vs
                (out @ [(v, if numeric
                            then feature_check_numerical X metric (deltaWorker x baseline_metric)
                            else feature_check_categorical X metric
                                   (chi_square_stats X x baseline_metric))])))"

definition feature_check_all_variants ::
  "('b, 'ds, 'fr, 'fc, 'cs, 'z) ext_scheme \<Rightarrow> frame3 \<Rightarrow> cell \<Rightarrow> (cell list \<Rightarrow> cell list \<Rightarrow> 'ds)
     \<Rightarrow> error + (cell \<times> 'fc) list" where
  "feature_check_all_variants X metric_df baseline_variant deltaWorker =
     (let rows = rows3 metric_df;
          baseline_metric = map (\<lambda>(a, b, c). c) (filter (\<lambda>(a, b, c). b = baseline_variant) rows)
      in feature_groups X deltaWorker (snd (snd (names3 metric_df)))
           (list_all is_number (map (\<lambda>(a, b, c). c) rows)) rows baseline_metric
           (np_unique X (map (\<lambda>(a, b, c). b) rows)) [])"

text \<open>The loop of \<open>feature_check\<close>, lines 173 to 179.\<close>

fun feature_check_loop ::
  "('b, 'ds, 'fr, 'fc, 'cs, 'z) ext_scheme \<Rightarrow> obj \<Rightarrow> pyattr \<Rightarrow> (cell list \<Rightarrow> cell list \<Rightarrow> 'ds)
     \<Rightarrow> string list \<Rightarrow> ((cell \<times> 'fc) list, 'b) results \<Rightarrow> error + ((cell \<times> 'fc) list, 'b) results" where
  "feature_check_loop X self features deltaWorker [] res = Inr res"
| "feature_check_loop X self features deltaWorker (feature # fs) res =
     (case project3 features ''entity'' ''variant'' feature of
        Inl e \<Rightarrow> Inl e
      | Inr metric_df \<Rightarrow>
          (case baseline_of self of
             Inl e \<Rightarrow> Inl e
           | Inr base \<Rightarrow>
               (case feature_check_all_variants X metric_df base deltaWorker of
                  Inl e \<Rightarrow> Inl e
                | Inr df \<Rightarrow>
                    feature_check_loop X self features deltaWorker fs
                      (res\<lparr>res_df := (case res_df res of None \<Rightarrow> Some df | Some t \<Rightarrow> Some (t @ df))\<rparr>))))"

definition feature_check ::
  "('b, 'ds, 'fr, 'fc, 'cs, 'z) ext_scheme \<Rightarrow> obj \<Rightarrow> string list option \<Rightarrow> pyattr option
     \<Rightarrow> (cell list \<Rightarrow> cell list \<Rightarrow> 'ds) \<Rightarrow> error + ((cell \<times> 'fc) list, 'b) results" where
  "feature_check X self feature_subset variant_subset deltaWorker =
     (case new_results X self of
        Inl e \<Rightarrow> Inl e
      | Inr res \<Rightarrow>
          (case getattr self ''features'' of
             Inl e \<Rightarrow> Inl e
           | Inr features \<Rightarrow>
               if features = ANone then Inr res
               else (case names_or_attr self feature_subset ''feature_names'' of
                       Inl e \<Rightarrow> Inl e
                     | Inr feature_list \<Rightarrow>
                         (case value_or_attr self variant_subset ''variant_names'' of
                            Inl e \<Rightarrow> Inl e
                          | Inr vsub \<Rightarrow>
                              feature_check_loop X self features deltaWorker feature_list res))))"

text \<open>
  An instance as the three methods expect it, with the attributes they read but the
  constructor does not assign, to run them on.
\<close>

definition ex_legacy_self :: obj where
  "ex_legacy_self =
     [''metadata'' \<mapsto> AMetadata [],
      ''metrics'' \<mapsto> AIndexedFrame [''entity'']
         [(''entity'', [S ''e1'', S ''e2'', S ''e3'', S ''e4'']),
          (''variant'', [S ''A'', S ''B'', S ''A'', S ''B'']),
          (''age'', [F (Fin 1), F (Fin 1), F (Fin 2), F (Fin 2)]),
          (''k'', [F (Fin 10), F (Fin 20), F (Fin 11), F (Fin 21)])],
      ''kpi_names'' \<mapsto> ANames [''k''],
      ''feature_names'' \<mapsto> ANames [''age''],
      ''variant_names'' \<mapsto> ACellSet [S ''A'', S ''B''],
      ''baseline_variant'' \<mapsto> ACell (S ''A'')]"

section \<open>Properties\<close>

subsection \<open>The constructor, step by step\<close>

lemma get_data_iff:
  "get_data self = Inr d \<longleftrightarrow> self ''data'' = Some (ADataFrame d)"
  by (auto simp: get_data_def split: option.splits pyattr.splits)

lemma get_referenceKpis_iff:
  "get_referenceKpis self = Inr r \<longleftrightarrow> self ''referenceKpis'' = Some (ARefs r)"
  by (auto simp: get_referenceKpis_def split: option.splits pyattr.splits)

lemma add_derived_success:
  assumes "derive_in_order E d specs = Inr d'"
    and "get_data self = Inr d" and "get_referenceKpis self = Inr refs"
  shows "add_derived E specs self
           = (None, self(''data'' \<mapsto> ADataFrame d', ''referenceKpis'' \<mapsto> ARefs (record_refs refs specs)))"
  using assms
proof (induction specs arbitrary: self d refs)
  case Nil
  from Nil.prems(1) have "d' = d" by simp
  then have h: "self(''data'' \<mapsto> ADataFrame d', ''referenceKpis'' \<mapsto> ARefs refs) = self"
    using Nil.prems(2,3) by (auto simp: get_data_iff get_referenceKpis_iff fun_eq_iff)
  show ?case
    unfolding record_refs_def by (simp only: add_derived.simps foldl.simps h)
next
  case (Cons p specs)
  obtain n f where p: "p = (n, f)" by (cases p)
  from Cons.prems(1) p obtain col where
    col: "eval_expr E d (subst_names f) = Inr col"
    and rest: "derive_in_order E (set_column d n col) specs = Inr d'"
    by (auto split: sum.splits)
  let ?self2 = "self(''data'' \<mapsto> ADataFrame (set_column d n col),
                     ''referenceKpis'' \<mapsto> ARefs (dict_set refs n (strip_name_slash f)))"
  have refs1: "get_referenceKpis (self(''data'' \<mapsto> ADataFrame (set_column d n col))) = Inr refs"
    using Cons.prems(3) by (simp add: get_referenceKpis_iff)
  have "add_derived E (p # specs) self = add_derived E specs ?self2"
    unfolding p by (simp only: add_derived.simps Cons.prems(2) col refs1 sum.case Let_def)
  also have "\<dots> = (None, ?self2(''data'' \<mapsto> ADataFrame d',
               ''referenceKpis'' \<mapsto> ARefs (record_refs (dict_set refs n (strip_name_slash f)) specs)))"
    by (rule Cons.IH [OF rest]) (simp_all add: get_data_iff get_referenceKpis_iff)
  also have "?self2(''data'' \<mapsto> ADataFrame d',
               ''referenceKpis'' \<mapsto> ARefs (record_refs (dict_set refs n (strip_name_slash f)) specs))
             = self(''data'' \<mapsto> ADataFrame d',
               ''referenceKpis'' \<mapsto> ARefs (record_refs refs (p # specs)))"
    by (auto simp: p record_refs_def fun_eq_iff)
  finally show ?case .
qed

lemma add_derived_failure:
  assumes "derive_in_order E d specs = Inl e"
    and "get_data self = Inr d" and "get_referenceKpis self = Inr refs"
  shows "fst (add_derived E specs self) = Some e"
  using assms
proof (induction specs arbitrary: self d refs)
  case Nil
  then show ?case by simp
next
  case (Cons p specs)
  obtain n f where p: "p = (n, f)" by (cases p)
  show ?case
  proof (cases "eval_expr E d (subst_names f)")
    case (Inl e')
    with Cons.prems p show ?thesis by simp
  next
    case (Inr col)
    with Cons.prems(1) p have rest: "derive_in_order E (set_column d n col) specs = Inl e"
      by simp
    let ?self2 = "self(''data'' \<mapsto> ADataFrame (set_column d n col),
                     ''referenceKpis'' \<mapsto> ARefs (dict_set refs n (strip_name_slash f)))"
    have "fst (add_derived E specs ?self2) = Some e"
      by (rule Cons.IH [OF rest]) (simp_all add: get_data_iff get_referenceKpis_iff)
    moreover have "get_referenceKpis (self(''data'' \<mapsto> ADataFrame (set_column d n col))) = Inr refs"
      using Cons.prems(3) by (simp add: get_referenceKpis_iff)
    ultimately show ?thesis
      using Cons.prems(2) Inr by (simp add: p Let_def)
  qed
qed


lemma set_foldl_append:
  "set (foldl (\<lambda>req f. req @ g f) init fs) = set init \<union> (\<Union>f \<in> set fs. set (g f))"
  by (induction fs arbitrary: init) auto

lemma set_required_columns:
  "set (required_columns report derivedKpis) = required_column_set report derivedKpis"
  unfolding required_columns_def required_column_set_def experimentColumnNames_def set_foldl_append
  by auto

lemma find_absent_None:
  assumes "\<forall>xs. set (iter_names E xs) = set xs"
  shows "List.find (\<lambda>c. \<not> has_column data c) (iter_names E (required_columns report derivedKpis)) = None
           \<longleftrightarrow> (\<forall>c \<in> required_column_set report derivedKpis. has_column data c)"
  using assms by (auto simp: find_None_iff set_required_columns)

lemma Experiment_init_checked:
  assumes "\<forall>xs. set (iter_names E xs) = set xs"
    and "\<forall>c \<in> required_column_set (report_names E data rk) specs. has_column data c"
    and "get_column data ''variant'' = Inr vs"
  shows "Experiment_init E cv data md rk specs Map.empty
           = add_derived E (spec_pairs specs)
               [''data'' \<mapsto> ADataFrame data,
                ''metadata'' \<mapsto> AMetadata md,
                ''reportKpiNames'' \<mapsto> ANames (report_names E data rk),
                ''derivedKpis'' \<mapsto> ASpecs (spec_pairs specs),
                ''variantNames'' \<mapsto> ACells (iter_cells E vs),
                ''controlVariantName'' \<mapsto> ACell cv,
                ''referenceKpis'' \<mapsto> ARefs []]"
proof -
  have "List.find (\<lambda>c. \<not> has_column data c)
          (iter_names E (required_columns (report_names E data rk) specs)) = None"
    using find_absent_None [OF assms(1), of data "report_names E data rk" specs] assms(2) by blast
  then show ?thesis
    using assms(3)
    by (simp add: Experiment_init_def Let_def spec_pairs_def)
qed


lemma Experiment_Inr_init:
  "Experiment E cv data md rk specs = Inr self
     \<longleftrightarrow> Experiment_init E cv data md rk specs Map.empty = (None, self)"
  by (auto simp: Experiment_def split: prod.splits option.splits)

lemma Experiment_iff:
  assumes iter: "\<forall>xs. set (iter_names E xs) = set xs"
  shows "Experiment E cv data md rk specs = Inr self \<longleftrightarrow>
     (\<forall>c \<in> required_column_set (report_names E data rk) specs. has_column data c) \<and>
     (\<exists>vs d'. get_column data ''variant'' = Inr vs
         \<and> derive_in_order E data (spec_pairs specs) = Inr d'
         \<and> self = instance_after_init E cv d' md (report_names E data rk) specs vs)"
    (is "?L \<longleftrightarrow> ?R1 \<and> ?R2")
proof -
  let ?self0 = "\<lambda>vs. [''data'' \<mapsto> ADataFrame data,
                ''metadata'' \<mapsto> AMetadata md,
                ''reportKpiNames'' \<mapsto> ANames (report_names E data rk),
                ''derivedKpis'' \<mapsto> ASpecs (spec_pairs specs),
                ''variantNames'' \<mapsto> ACells (iter_cells E vs),
                ''controlVariantName'' \<mapsto> ACell cv,
                ''referenceKpis'' \<mapsto> ARefs []]"
  have d0: "\<And>vs. get_data (?self0 vs) = Inr data"
    by (simp add: get_data_iff)
  have r0: "\<And>vs. get_referenceKpis (?self0 vs) = Inr []"
    by (simp add: get_referenceKpis_iff)
  have fin: "\<And>vs d'. (?self0 vs)(''data'' \<mapsto> ADataFrame d',
                 ''referenceKpis'' \<mapsto> ARefs (record_refs [] (spec_pairs specs)))
               = instance_after_init E cv d' md (report_names E data rk) specs vs"
    by (auto simp: instance_after_init_def fun_eq_iff)
  show ?thesis
  proof
    assume L: ?L
    then have init: "Experiment_init E cv data md rk specs Map.empty = (None, self)"
      by (simp only: Experiment_Inr_init)
    have none: "List.find (\<lambda>c. \<not> has_column data c)
          (iter_names E (required_columns (report_names E data rk) specs)) = None"
      using init by (auto simp: Experiment_init_def Let_def split: option.splits)
    then have R1: ?R1
      using find_absent_None [OF iter, of data "report_names E data rk" specs] by blast
    obtain vs where vs: "get_column data ''variant'' = Inr vs"
      using init none by (auto simp: Experiment_init_def Let_def split: sum.splits)
    have ad: "add_derived E (spec_pairs specs) (?self0 vs) = (None, self)"
      using Experiment_init_checked [OF iter R1 vs, of cv md] init by simp
    have R2: ?R2
    proof (cases "derive_in_order E data (spec_pairs specs)")
      case (Inl e)
      from add_derived_failure [OF Inl d0 r0, of vs] ad show ?thesis by simp
    next
      case (Inr d')
      from add_derived_success [OF Inr d0 r0, of vs] ad fin [of vs d']
      have "self = instance_after_init E cv d' md (report_names E data rk) specs vs"
        by simp
      with vs Inr show ?thesis by blast
    qed
    from R1 R2 show "?R1 \<and> ?R2" ..
  next
    assume R: "?R1 \<and> ?R2"
    then obtain vs d' where vs: "get_column data ''variant'' = Inr vs"
      and d': "derive_in_order E data (spec_pairs specs) = Inr d'"
      and self: "self = instance_after_init E cv d' md (report_names E data rk) specs vs"
      by blast
    from R have R1: ?R1 ..
    have "Experiment_init E cv data md rk specs Map.empty = (None, self)"
      using Experiment_init_checked [OF iter R1 vs, of cv md]
        add_derived_success [OF d' d0 r0, of vs] fin [of vs d'] self by simp
    then show ?L by (simp only: Experiment_Inr_init)
  qed
qed

subsection \<open>Construction\<close>

text \<open>
  C7. When a required column (a reported KPI, \<open>entity\<close> or \<open>variant\<close>, unless it is
  the name of a derived KPI, or a name found in a derived KPI's formula) is absent from
  the input table, the constructor raises the missing-column error naming an absent
  required column, \<open>__init__\<close> has assigned nothing to the instance at that point, and the
  caller gets no instance. The order in which the set of names is iterated is any order
  that enumerates the set.
\<close>

theorem init_missing_column:
  assumes iter: "\<forall>xs. set (iter_names E xs) = set xs"
    and req: "c0 \<in> ((set (report_names E data reportKpiNames) \<union> {''entity'', ''variant''})
                     - set (map name derivedKpis))
                   \<union> (\<Union>f \<in> set (map formula derivedKpis). set (findall_names f))"
    and absent: "\<not> has_column data c0"
  shows "\<exists>c. c \<in> ((set (report_names E data reportKpiNames) \<union> {''entity'', ''variant''})
                     - set (map name derivedKpis))
                   \<union> (\<Union>f \<in> set (map formula derivedKpis). set (findall_names f))
           \<and> \<not> has_column data c
           \<and> Experiment_init E cv data md reportKpiNames derivedKpis self
               = (Some (ValueError (''No column '' @ c @ '' provided'')), self)
           \<and> Experiment E cv data md reportKpiNames derivedKpis
               = Inl (ValueError (''No column '' @ c @ '' provided''))"
proof -
  let ?req = "required_columns (report_names E data reportKpiNames) derivedKpis"
  let ?it = "iter_names E ?req"
  have in_it: "c0 \<in> set ?it"
    using iter req by (simp only: set_required_columns required_column_set_def)
  have "List.find (\<lambda>c. \<not> has_column data c) ?it \<noteq> None"
    using in_it absent by (auto simp: find_None_iff)
  then obtain c where found: "List.find (\<lambda>c. \<not> has_column data c) ?it = Some c"
    by blast
  then have c_in: "c \<in> set ?it" and c_abs: "\<not> has_column data c"
    by (auto simp: find_Some_iff)
  have c_req: "c \<in> ((set (report_names E data reportKpiNames) \<union> {''entity'', ''variant''})
                     - set (map name derivedKpis))
                   \<union> (\<Union>f \<in> set (map formula derivedKpis). set (findall_names f))"
    using c_in iter by (simp only: set_required_columns required_column_set_def)
  have init: "\<And>s. Experiment_init E cv data md reportKpiNames derivedKpis s
               = (Some (ValueError (''No column '' @ c @ '' provided'')), s)"
    using found by (simp add: Experiment_init_def Let_def missing_column_error_def)
  have "Experiment E cv data md reportKpiNames derivedKpis
               = Inl (ValueError (''No column '' @ c @ '' provided''))"
    by (simp add: Experiment_def init)
  with c_req c_abs init show ?thesis by blast
qed

theorem init_missing_column_witness:
  "\<exists>c. \<not> has_column ex_data c
     \<and> Experiment_init ex_env (S ''A'') ex_data [] (Some [''a'', ''zz'']) [] Map.empty
         = (Some (ValueError (''No column '' @ c @ '' provided'')), Map.empty)
     \<and> Experiment ex_env (S ''A'') ex_data [] (Some [''a'', ''zz'']) []
         = Inl (ValueError (''No column '' @ c @ '' provided''))"
proof -
  have iter: "\<forall>xs. set (iter_names ex_env xs) = set xs"
    by (simp add: ex_env_def)
  have req: "''zz'' \<in> ((set (report_names ex_env ex_data (Some [''a'', ''zz''])) \<union> {''entity'', ''variant''})
                     - set (map name []))
                   \<union> (\<Union>f \<in> set (map formula []). set (findall_names f))"
    by (simp add: report_names_def)
  have absent: "\<not> has_column ex_data ''zz''"
    by (simp add: has_column_def ex_data_def)
  show ?thesis
    using init_missing_column [OF iter req absent, of "S ''A''" "[]" Map.empty] by blast
qed


subsection \<open>Reference entries and the name pattern\<close>

lemma map_of_dict_set: "map_of (dict_set d k v) = (map_of d)(k \<mapsto> v)"
  by (induction d k v rule: dict_set.induct) (auto simp: fun_eq_iff)

lemma map_of_record_refs_notin:
  "n \<notin> fst ` set specs \<Longrightarrow> map_of (record_refs refs specs) n = map_of refs n"
  unfolding record_refs_def
  by (induction specs arbitrary: refs) (auto simp: map_of_dict_set)

lemma map_of_record_refs_in:
  "distinct (map fst specs) \<Longrightarrow> (n, f) \<in> set specs
     \<Longrightarrow> map_of (record_refs refs specs) n = Some (strip_name_slash f)"
proof (induction specs arbitrary: refs)
  case Nil
  then show ?case by simp
next
  case (Cons p specs)
  obtain m g where p: "p = (m, g)" by (cases p)
  have unfold: "record_refs refs (p # specs) = record_refs (dict_set refs m (strip_name_slash g)) specs"
    by (simp add: record_refs_def p)
  show ?case
  proof (cases "(n, f) \<in> set specs")
    case True
    with Cons show ?thesis by (simp add: unfold)
  next
    case False
    with Cons.prems p have eq: "m = n" "g = f" by auto
    with Cons.prems p have "n \<notin> fst ` set specs" by auto
    then show ?thesis
      by (simp add: unfold map_of_record_refs_notin map_of_dict_set eq)
  qed
qed

lemma not_word_slash: "\<not> is_word (CHR ''/'')"
  by (simp add: is_word_def is_alpha_def)

lemma strip_words: "\<forall>x \<in> set s. is_word x \<Longrightarrow> strip_name_slash s = s"
proof (induction s)
  case Nil
  show ?case by simp
next
  case (Cons c cs)
  then have dw: "dropWhile is_word cs = []" by (simp add: dropWhile_eq_Nil_conv)
  from Cons have "strip_name_slash cs = cs" by simp
  then show ?case by (simp add: dw)
qed

lemma strip_identifier:
  assumes "is_identifier s"
  shows "strip_name_slash s = s"
proof (cases s)
  case Nil
  then show ?thesis by simp
next
  case (Cons c cs)
  with assms have cs: "\<forall>x \<in> set cs. is_word x" by (simp add: is_identifier_def)
  then have dw: "dropWhile is_word cs = []" by (simp add: dropWhile_eq_Nil_conv)
  from cs have "strip_name_slash cs = cs" by (rule strip_words)
  then show ?thesis by (simp add: Cons dw)
qed

lemma strip_ratio:
  assumes "is_identifier num" and "is_identifier den"
  shows "strip_name_slash (num @ ''/'' @ den) = den"
proof -
  from assms(1) obtain c cs where num: "num = c # cs" and c: "is_alpha c"
    and cs: "\<forall>x \<in> set cs. is_word x"
    by (cases num) (auto simp: is_identifier_def)
  have "dropWhile is_word (cs @ ''/'' @ den) = ''/'' @ den"
    using cs by (simp add: dropWhile_append2 not_word_slash)
  then have "strip_name_slash (num @ ''/'' @ den) = strip_name_slash den"
    using c by (simp add: num)
  with assms(2) show ?thesis by (simp add: strip_identifier)
qed

lemma getWeights_no_reference:
  assumes "get_referenceKpis self = Inr refs" and "map_of refs kpi = None"
  shows "getWeights self kpi v = Inr (Scalar (Fin 1))"
  using assms by (simp add: getWeights_def)

subsection \<open>Derived KPIs\<close>

text \<open>
  C9, as stated, fails: with the derived KPIs \<open>r = a/b\<close> and \<open>s = r/b\<close> over a table
  that has the columns \<open>entity\<close>, \<open>variant\<close>, \<open>a\<close> and \<open>b\<close>, the name \<open>r\<close> found in
  the second formula is a required column of the input table, and the constructor raises.
\<close>

theorem later_reference_counterexample:
  "Experiment ex_env (S ''A'') ex_data [] (Some [''s'']) [ex_ratio, ex_later]
     = Inl (ValueError ''No column r provided'')"
  by (simp add: Experiment_def Experiment_init_def ex_env_def ex_data_def ex_ratio_def ex_later_def
      report_names_def required_columns_def experimentColumnNames_def has_column_def
      missing_column_error_def is_alpha_def is_word_def)

text \<open>
  C9, amended. The constructor returns exactly when every required column is in the input
  table (every name found in a formula is one of them, the name of an earlier derived KPI
  too), the input table has the variant column, and each formula evaluates, in
  declaration order, over the table that holds the columns stored before it. The table of
  the instance is then the outcome of that evaluation in order.
\<close>

theorem derived_kpis_in_declaration_order:
  assumes iter: "\<forall>xs. set (iter_names E xs) = set xs"
  shows "((\<exists>self. Experiment E cv data md rk specs = Inr self) \<longleftrightarrow>
            (\<forall>c \<in> required_column_set (report_names E data rk) specs. has_column data c)
            \<and> (\<exists>vs. get_column data ''variant'' = Inr vs)
            \<and> (\<exists>d'. derive_in_order E data (spec_pairs specs) = Inr d'))
       \<and> (\<forall>self. Experiment E cv data md rk specs = Inr self \<longrightarrow>
            (\<forall>f \<in> set (map formula specs). \<forall>n \<in> set (findall_names f). has_column data n)
            \<and> derive_in_order E data (spec_pairs specs) = get_data self)"
proof -
  have data: "\<And>d' vs. get_data (instance_after_init E cv d' md (report_names E data rk) specs vs) = Inr d'"
    by (simp add: get_data_iff instance_after_init_def)
  have names: "\<And>f n. f \<in> set (map formula specs) \<Longrightarrow> n \<in> set (findall_names f)
                 \<Longrightarrow> n \<in> required_column_set (report_names E data rk) specs"
    by (auto simp: required_column_set_def)
  note char = Experiment_iff [OF iter, of cv data md rk specs]
  have succeeds: "(\<exists>self. Experiment E cv data md rk specs = Inr self) \<longleftrightarrow>
            (\<forall>c \<in> required_column_set (report_names E data rk) specs. has_column data c)
            \<and> (\<exists>vs. get_column data ''variant'' = Inr vs)
            \<and> (\<exists>d'. derive_in_order E data (spec_pairs specs) = Inr d')"
  proof (rule iffI)
    assume "\<exists>self. Experiment E cv data md rk specs = Inr self"
    then obtain self where "Experiment E cv data md rk specs = Inr self" ..
    from char [THEN iffD1, OF this]
    show "(\<forall>c \<in> required_column_set (report_names E data rk) specs. has_column data c)
            \<and> (\<exists>vs. get_column data ''variant'' = Inr vs)
            \<and> (\<exists>d'. derive_in_order E data (spec_pairs specs) = Inr d')"
      by blast
  next
    assume A: "(\<forall>c \<in> required_column_set (report_names E data rk) specs. has_column data c)
            \<and> (\<exists>vs. get_column data ''variant'' = Inr vs)
            \<and> (\<exists>d'. derive_in_order E data (spec_pairs specs) = Inr d')"
    then obtain vs d' where vs: "get_column data ''variant'' = Inr vs"
      and d': "derive_in_order E data (spec_pairs specs) = Inr d'"
      by blast
    from A have R1: "\<forall>c \<in> required_column_set (report_names E data rk) specs. has_column data c" ..
    have "Experiment E cv data md rk specs
            = Inr (instance_after_init E cv d' md (report_names E data rk) specs vs)"
      by (rule char [THEN iffD2]) (use R1 vs d' in blast)
    then show "\<exists>self. Experiment E cv data md rk specs = Inr self" by blast
  qed
  have outcome: "\<forall>self. Experiment E cv data md rk specs = Inr self \<longrightarrow>
            (\<forall>f \<in> set (map formula specs). \<forall>n \<in> set (findall_names f). has_column data n)
            \<and> derive_in_order E data (spec_pairs specs) = get_data self"
  proof (rule allI, rule impI)
    fix self
    assume "Experiment E cv data md rk specs = Inr self"
    from char [THEN iffD1, OF this] obtain vs d' where
      R1: "\<forall>c \<in> required_column_set (report_names E data rk) specs. has_column data c"
      and d': "derive_in_order E data (spec_pairs specs) = Inr d'"
      and self: "self = instance_after_init E cv d' md (report_names E data rk) specs vs"
      by blast
    have "\<forall>f \<in> set (map formula specs). \<forall>n \<in> set (findall_names f). has_column data n"
      using R1 names by blast
    moreover have "derive_in_order E data (spec_pairs specs) = get_data self"
      by (simp only: d' self data)
    ultimately show "(\<forall>f \<in> set (map formula specs). \<forall>n \<in> set (findall_names f). has_column data n)
            \<and> derive_in_order E data (spec_pairs specs) = get_data self" ..
  qed
  from succeeds outcome show ?thesis ..
qed

lemma ex_derive:
  "derive_in_order ex_env ex_data_r (spec_pairs [ex_ratio, ex_later])
     = Inr (ex_data @ [(''r'', [F (Fin 2), F (Fin 3), F (Fin 0), F NaN]),
                       (''s'', [F (Fin 2), F (Fin (3/2)), F (Fin 0), F NaN])])"
  by (simp add: ex_env_def ex_data_r_def ex_data_def ex_ratio_def ex_later_def spec_pairs_def
      binop_eval_def column_ref_def get_column_def set_column_def is_alpha_def is_word_def Let_def)

theorem derived_kpis_in_declaration_order_witness:
  "\<exists>self. Experiment ex_env (S ''A'') ex_data_r [] (Some [''s'']) [ex_ratio, ex_later] = Inr self
      \<and> get_data self
          = Inr (ex_data @ [(''r'', [F (Fin 2), F (Fin 3), F (Fin 0), F NaN]),
                            (''s'', [F (Fin 2), F (Fin (3/2)), F (Fin 0), F NaN])])"
proof -
  have iter: "\<forall>xs. set (iter_names ex_env xs) = set xs"
    by (simp add: ex_env_def)
  have req: "\<forall>c \<in> required_column_set (report_names ex_env ex_data_r (Some [''s''])) [ex_ratio, ex_later].
               has_column ex_data_r c"
    by (auto simp: required_column_set_def report_names_def ex_ratio_def ex_later_def
        has_column_def ex_data_r_def ex_data_def is_alpha_def is_word_def)
  have var: "\<exists>vs. get_column ex_data_r ''variant'' = Inr vs"
    by (simp add: get_column_def ex_data_r_def ex_data_def)
  note main = derived_kpis_in_declaration_order [OF iter, of "S ''A''" ex_data_r "[]" "Some [''s'']"
      "[ex_ratio, ex_later]"]
  have A: "(\<forall>c \<in> required_column_set (report_names ex_env ex_data_r (Some [''s''])) [ex_ratio, ex_later].
               has_column ex_data_r c)
            \<and> (\<exists>vs. get_column ex_data_r ''variant'' = Inr vs)
            \<and> (\<exists>d'. derive_in_order ex_env ex_data_r (spec_pairs [ex_ratio, ex_later]) = Inr d')"
    using req var ex_derive by blast
  from main [THEN conjunct1, THEN iffD2, OF A] obtain self
    where self: "Experiment ex_env (S ''A'') ex_data_r [] (Some [''s'']) [ex_ratio, ex_later] = Inr self"
    by blast
  from main [THEN conjunct2, THEN spec, THEN mp, OF self]
  have "derive_in_order ex_env ex_data_r (spec_pairs [ex_ratio, ex_later]) = get_data self"
    by (rule conjunct2)
  from this [symmetric] ex_derive have "get_data self
          = Inr (ex_data @ [(''r'', [F (Fin 2), F (Fin 3), F (Fin 0), F NaN]),
                            (''s'', [F (Fin 2), F (Fin (3/2)), F (Fin 0), F NaN])])"
    by (rule trans)
  with self show ?thesis by blast
qed

lemma ex_construct_refs:
  "Experiment ex_env (S ''A'') ex_data [] (Some [''r'']) [ex_ratio, ex_sum]
     = Inr (instance_after_init ex_env (S ''A'')
              (ex_data @ [(''r'', [F (Fin 2), F (Fin 3), F (Fin 0), F NaN]),
                          (''t'', [F (Fin 3), F (Fin 8), F (Fin 4), F NaN])])
              [] [''r''] [ex_ratio, ex_sum] [S ''A'', S ''B'', S ''A'', S ''B''])"
proof -
  have iter: "\<forall>xs. set (iter_names ex_env xs) = set xs"
    by (simp add: ex_env_def)
  have rn: "report_names ex_env ex_data (Some [''r'']) = [''r'']"
    by (simp add: report_names_def)
  have req: "\<forall>c \<in> required_column_set [''r''] [ex_ratio, ex_sum]. has_column ex_data c"
    by (auto simp: required_column_set_def ex_ratio_def ex_sum_def
        has_column_def ex_data_def is_alpha_def is_word_def)
  have var: "get_column ex_data ''variant'' = Inr [S ''A'', S ''B'', S ''A'', S ''B'']"
    by (simp add: get_column_def ex_data_def)
  have der: "derive_in_order ex_env ex_data (spec_pairs [ex_ratio, ex_sum])
     = Inr (ex_data @ [(''r'', [F (Fin 2), F (Fin 3), F (Fin 0), F NaN]),
                       (''t'', [F (Fin 3), F (Fin 8), F (Fin 4), F NaN])])"
    by (simp add: ex_env_def ex_data_def ex_ratio_def ex_sum_def spec_pairs_def
      binop_eval_def column_ref_def get_column_def set_column_def is_alpha_def is_word_def Let_def)
  show ?thesis
    using Experiment_iff [OF iter, of "S ''A''" ex_data "[]" "Some [''r'']" "[ex_ratio, ex_sum]"]
      req var der by (simp add: rn)
qed

text \<open>
  C5, as stated, fails: for \<open>r = a/b\<close> the recorded reference is \<open>b\<close>, not \<open>a\<close>; and for
  \<open>t = a+b\<close> an entry is recorded, so that the weight of \<open>t\<close> is not the constant one.
\<close>

theorem reference_kpi_counterexample:
  "(case Experiment ex_env (S ''A'') ex_data [] (Some [''r'']) [ex_ratio, ex_sum] of
      Inl e \<Rightarrow> None
    | Inr self \<Rightarrow> Some (get_referenceKpis self, getWeights self ''t'' (S ''A'')))
   = Some (Inr [(''r'', ''b''), (''t'', ''a+b'')], Inl (KeyError ''a+b''))"
  by (simp only: ex_construct_refs sum.case)
    (simp add: instance_after_init_def get_referenceKpis_def record_refs_def
      spec_pairs_def ex_ratio_def ex_sum_def is_alpha_def is_word_def getWeights_def
      getKPIbyNameAndVariant_def get_data_def get_column_def ex_data_def)

text \<open>
  C5, amended. After construction with distinct derived names, a derived KPI whose
  formula is one name, a slash and one name has the right-hand operand, the denominator,
  recorded as its reference; a KPI that is not a derived KPI has no reference and its
  weight is the constant one for every variant.
\<close>

theorem reference_kpi_is_denominator:
  assumes iter: "\<forall>xs. set (iter_names E xs) = set xs"
    and ok: "Experiment E cv data md rk specs = Inr self"
    and dist: "distinct (map name specs)"
  shows "\<exists>refs. get_referenceKpis self = Inr refs
           \<and> (\<forall>s \<in> set specs. \<forall>num den.
                  formula s = num @ ''/'' @ den \<and> is_identifier num \<and> is_identifier den
                    \<longrightarrow> map_of refs (name s) = Some den)
           \<and> (\<forall>k. k \<notin> set (map name specs)
                    \<longrightarrow> map_of refs k = None \<and> (\<forall>v. getWeights self k v = Inr (Scalar (Fin 1))))"
proof -
  from Experiment_iff [OF iter, of cv data md rk specs self] ok obtain vs d'
    where self: "self = instance_after_init E cv d' md (report_names E data rk) specs vs"
    by blast
  let ?refs = "record_refs [] (spec_pairs specs)"
  have refs: "get_referenceKpis self = Inr ?refs"
    by (simp add: self get_referenceKpis_iff instance_after_init_def)
  have fst_pairs: "map fst (spec_pairs specs) = map name specs"
    by (simp add: spec_pairs_def)
  have ratio: "map_of ?refs (name s) = Some den"
    if "s \<in> set specs" "formula s = num @ ''/'' @ den" "is_identifier num" "is_identifier den"
    for s num den
  proof -
    have "(name s, formula s) \<in> set (spec_pairs specs)"
      using that(1) by (auto simp: spec_pairs_def zip_map_map image_iff intro!: bexI [of _ "(s, s)"] simp: zip_same)
    then have "map_of ?refs (name s) = Some (strip_name_slash (formula s))"
      using dist by (intro map_of_record_refs_in) (simp_all add: fst_pairs)
    then show ?thesis using that(2) strip_ratio [OF that(3,4)] by simp
  qed
  have other: "map_of ?refs k = None" if "k \<notin> set (map name specs)" for k
  proof -
    have "k \<notin> fst ` set (spec_pairs specs)"
      using that fst_pairs by (metis set_map)
    then show ?thesis by (simp add: map_of_record_refs_notin)
  qed
  show ?thesis
    using refs ratio other getWeights_no_reference [OF refs] by blast
qed

theorem reference_kpi_is_denominator_witness:
  "\<exists>self refs. Experiment ex_env (S ''A'') ex_data [] (Some [''r'']) [ex_ratio, ex_sum] = Inr self
      \<and> get_referenceKpis self = Inr refs
      \<and> map_of refs ''r'' = Some ''b''
      \<and> getWeights self ''a'' (S ''B'') = Inr (Scalar (Fin 1))"
proof -
  have iter: "\<forall>xs. set (iter_names ex_env xs) = set xs"
    by (simp add: ex_env_def)
  have dist: "distinct (map name [ex_ratio, ex_sum])"
    by (simp add: ex_ratio_def ex_sum_def)
  have shape: "formula ex_ratio = ''a'' @ ''/'' @ ''b'' \<and> is_identifier ''a'' \<and> is_identifier ''b''"
    by (simp add: ex_ratio_def is_identifier_def is_alpha_def)
  have nm: "name ex_ratio = ''r''" "''a'' \<notin> set (map name [ex_ratio, ex_sum])"
    by (simp_all add: ex_ratio_def ex_sum_def)
  from reference_kpi_is_denominator [OF iter ex_construct_refs dist] obtain refs where
    r: "get_referenceKpis (instance_after_init ex_env (S ''A'')
              (ex_data @ [(''r'', [F (Fin 2), F (Fin 3), F (Fin 0), F NaN]),
                          (''t'', [F (Fin 3), F (Fin 8), F (Fin 4), F NaN])])
              [] [''r''] [ex_ratio, ex_sum] [S ''A'', S ''B'', S ''A'', S ''B'']) = Inr refs"
    and d: "\<forall>s \<in> set [ex_ratio, ex_sum]. \<forall>num den.
                  formula s = num @ ''/'' @ den \<and> is_identifier num \<and> is_identifier den
                    \<longrightarrow> map_of refs (name s) = Some den"
    and w: "\<forall>k. k \<notin> set (map name [ex_ratio, ex_sum])
                    \<longrightarrow> map_of refs k = None \<and> (\<forall>v. getWeights (instance_after_init ex_env (S ''A'')
              (ex_data @ [(''r'', [F (Fin 2), F (Fin 3), F (Fin 0), F NaN]),
                          (''t'', [F (Fin 3), F (Fin 8), F (Fin 4), F NaN])])
              [] [''r''] [ex_ratio, ex_sum] [S ''A'', S ''B'', S ''A'', S ''B'']) k v = Inr (Scalar (Fin 1)))"
    by blast
  have mem: "ex_ratio \<in> set [ex_ratio, ex_sum]" by simp
  from d [rule_format, OF mem shape] have "map_of refs ''r'' = Some ''b''"
    by (simp only: nm)
  moreover from w [rule_format, OF nm(2)] have "getWeights (instance_after_init ex_env (S ''A'')
              (ex_data @ [(''r'', [F (Fin 2), F (Fin 3), F (Fin 0), F NaN]),
                          (''t'', [F (Fin 3), F (Fin 8), F (Fin 4), F NaN])])
              [] [''r''] [ex_ratio, ex_sum] [S ''A'', S ''B'', S ''A'', S ''B'']) ''a'' (S ''B'') = Inr (Scalar (Fin 1))"
    by blast
  ultimately show ?thesis using ex_construct_refs r by blast
qed

subsection \<open>Weights\<close>






lemma ex_self_constructed:
  "Experiment ex_env (S ''A'') ex_data [] (Some [''r'']) [ex_ratio, ex_sum] = Inr ex_self"
  by (simp only: ex_construct_refs ex_self_def ex_table_def)




subsection \<open>Plain delta\<close>


















subsection \<open>The binned-delta engine\<close>

lemma set_unique_acc: "set (unique_acc seen xs) = set xs - set seen"
  by (induction seen xs rule: unique_acc.induct) auto

lemma set_unique [simp]: "set (unique xs) = set xs"
  by (simp add: unique_def set_unique_acc)

















subsection \<open>The methods below the banner\<close>

lemma constructed_shape:
  assumes ok: "Experiment E cv data md rk specs = Inr self"
  shows "\<exists>vs d'. self = instance_after_init E cv d' md (report_names E data rk) specs vs"
proof -
  from ok have init: "Experiment_init E cv data md rk specs Map.empty = (None, self)"
    by (simp only: Experiment_Inr_init)
  have none: "List.find (\<lambda>c. \<not> has_column data c)
          (iter_names E (required_columns (report_names E data rk) specs)) = None"
    using init by (auto simp: Experiment_init_def Let_def split: option.splits)
  obtain vs where vs: "get_column data ''variant'' = Inr vs"
    using init none by (auto simp: Experiment_init_def Let_def split: sum.splits)
  let ?self0 = "[''data'' \<mapsto> ADataFrame data,
                ''metadata'' \<mapsto> AMetadata md,
                ''reportKpiNames'' \<mapsto> ANames (report_names E data rk),
                ''derivedKpis'' \<mapsto> ASpecs (spec_pairs specs),
                ''variantNames'' \<mapsto> ACells (iter_cells E vs),
                ''controlVariantName'' \<mapsto> ACell cv,
                ''referenceKpis'' \<mapsto> ARefs []]"
  have d0: "get_data ?self0 = Inr data"
    by (simp add: get_data_iff)
  have r0: "get_referenceKpis ?self0 = Inr []"
    by (simp add: get_referenceKpis_iff)
  have ad: "add_derived E (spec_pairs specs) ?self0 = (None, self)"
    using init none vs by (simp add: Experiment_init_def Let_def spec_pairs_def)
  show ?thesis
  proof (cases "derive_in_order E data (spec_pairs specs)")
    case (Inl e)
    from add_derived_failure [OF Inl d0 r0] ad show ?thesis by simp
  next
    case (Inr d')
    have "?self0(''data'' \<mapsto> ADataFrame d',
                 ''referenceKpis'' \<mapsto> ARefs (record_refs [] (spec_pairs specs)))
               = instance_after_init E cv d' md (report_names E data rk) specs vs"
      by (auto simp: instance_after_init_def fun_eq_iff)
    with add_derived_success [OF Inr d0 r0] ad
    have "self = instance_after_init E cv d' md (report_names E data rk) specs vs"
      by simp
    then show ?thesis by blast
  qed
qed

lemma instance_legacy_attrs:
  "getattr (instance_after_init E cv d md report specs vs) ''metadata'' = Inr (AMetadata md)"
  "getattr (instance_after_init E cv d md report specs vs) ''metrics'' = Inl (AttributeError ''metrics'')"
  "getattr (instance_after_init E cv d md report specs vs) ''kpis_time'' = Inl (AttributeError ''kpis_time'')"
  "getattr (instance_after_init E cv d md report specs vs) ''features'' = Inl (AttributeError ''features'')"
  by (simp_all add: getattr_def instance_after_init_def)

text \<open>
  C10. On a constructed Experiment each of \<open>sga\<close>, \<open>trend\<close> and \<open>feature_check\<close> raises
  before it produces a result, whatever the arguments: NameError for \<open>Results\<close> when that
  name is not bound in the module, as in the file as written, and otherwise AttributeError
  for the first attribute the method reads that the constructor does not assign.
\<close>

theorem legacy_methods_raise:
  fixes X :: "('b::ord, 'ds, 'fr, 'fc, 'cs, 'z) ext_scheme"
  assumes ok: "Experiment E cv data md rk specs = Inr self"
  shows "sga X self fs ks vs n w
           = Inl (if ''Results'' \<in> set (bound_names X) then AttributeError ''metrics''
                  else NameError ''Results'')
       \<and> trend X self ks vs ts cumulative w
           = Inl (if ''Results'' \<in> set (bound_names X) then AttributeError ''kpis_time''
                  else NameError ''Results'')
       \<and> feature_check X self fs vs w
           = Inl (if ''Results'' \<in> set (bound_names X) then AttributeError ''features''
                  else NameError ''Results'')"
proof -
  from constructed_shape [OF ok] obtain vs0 d' where
    self: "self = instance_after_init E cv d' md (report_names E data rk) specs vs0"
    by blast
  show ?thesis
    unfolding self
    by (simp add: sga_def trend_def feature_check_def new_results_def load_global_def
        instance_legacy_attrs)
qed

theorem legacy_methods_raise_witness:
  "sga (ex_ext\<lparr>bound_names := module_names\<rparr>) ex_self None None None 4 ex_worker
     = Inl (NameError ''Results'')
   \<and> trend (ex_ext\<lparr>bound_names := module_names\<rparr>) ex_self None None 1 True ex_worker
     = Inl (NameError ''Results'')
   \<and> feature_check (ex_ext\<lparr>bound_names := module_names\<rparr>) ex_self None None ex_worker
     = Inl (NameError ''Results'')"
proof -
  have unbound: "''Results'' \<notin> set (bound_names (ex_ext\<lparr>bound_names := module_names\<rparr>))"
    by (simp add: module_names_def)
  from legacy_methods_raise [OF ex_self_constructed,
      where X = "ex_ext\<lparr>bound_names := module_names\<rparr>" and w = ex_worker
        and fs = None and ks = None and vs = None and n = 4 and ts = 1 and cumulative = True]
  show ?thesis by (simp only: unbound if_False)
qed

text \<open>
  C8 against the code: the table of the constructed example has no time column, and
  \<open>trend\<close> raises, in the module as written and also with \<open>Results\<close> bound; the branch
  that records the warning and returns the empty result is not reached.
\<close>

theorem trend_raises_without_time_column:
  "\<not> has_column ex_table ''time_since_treatment''
   \<and> (case Experiment ex_env (S ''A'') ex_data [] (Some [''r'']) [ex_ratio, ex_sum] of
        Inl e \<Rightarrow> Inl e
      | Inr self \<Rightarrow> trend (ex_ext\<lparr>bound_names := module_names\<rparr>) self None None 1 True ex_worker)
     = Inl (NameError ''Results'')
   \<and> (case Experiment ex_env (S ''A'') ex_data [] (Some [''r'']) [ex_ratio, ex_sum] of
        Inl e \<Rightarrow> Inl e
      | Inr self \<Rightarrow> trend ex_ext self None None 1 True ex_worker)
     = Inl (AttributeError ''kpis_time'')"
  by (simp only: ex_self_constructed sum.case)
    (simp add: has_column_def ex_table_def ex_data_def
      trend_def new_results_def load_global_def getattr_def ex_ext_def module_names_def
      ex_self_def instance_after_init_def)

text \<open>
  C2 against the code: on a constructed Experiment \<open>sga\<close> raises and returns no table; on
  an instance that has the attributes the method reads, with the helpers bound, the
  table it returns has rows whose compared variant is the control \<open>A\<close> itself.
\<close>

theorem sga_compares_control_with_itself:
  "(case Experiment ex_env (S ''A'') ex_data [] (Some [''r'']) [ex_ratio, ex_sum] of
        Inl e \<Rightarrow> Inl e
      | Inr self \<Rightarrow> sga (ex_ext\<lparr>bound_names := module_names\<rparr>) self None None None 4 ex_worker)
     = Inl (NameError ''Results'')
   \<and> sga ex_ext ex_legacy_self None None None 4 ex_worker
     = Inr \<lparr>res_df = Some
            [\<lparr>variant_key = S ''A'', bin_key = 1, piece = (''k'', [F (Fin 10)], [F (Fin 10)])\<rparr>,
             \<lparr>variant_key = S ''B'', bin_key = 1, piece = (''k'', [F (Fin 20)], [F (Fin 10)])\<rparr>,
             \<lparr>variant_key = S ''A'', bin_key = 2, piece = (''k'', [F (Fin 11)], [F (Fin 11)])\<rparr>,
             \<lparr>variant_key = S ''B'', bin_key = 2, piece = (''k'', [F (Fin 21)], [F (Fin 11)])\<rparr>],
          res_metadata = MetaDict [], res_warnings = []\<rparr>"
  by (simp only: ex_self_constructed sum.case)
    (simp add: sga_def new_results_def load_global_def getattr_def
      ex_ext_def module_names_def ex_self_def instance_after_init_def ex_legacy_self_def
      names_or_attr_def value_or_attr_def remove_baseline_def baseline_of_def project3_def
      get_column_def subgroup_deltas_def binned_deltas_def Let_def ex_binning_def ex_label_def
      unique_def do_delta_def variant_column_def metric_of_def bin_rows_def concat_df_def
      ex_worker_def)

end
